theory Spec2Isabelle
  imports Complex_Main
begin

section \<open>Python values, exceptions and string formatting\<close>

text \<open>
  The validators of \<^verbatim>\<open>oath_toolkit/wtforms.py\<close> signal every outcome through
  exceptions. An exception is a value here: its class and the text \<^verbatim>\<open>str(e)\<close>
  gives. A call that may raise returns \<open>py_exc + 'a\<close>, with \<open>Inl\<close> the exception.
\<close>

datatype exc_class =
    RuntimeError | NotImplementedError | AttributeError | TypeError | ValueError
  | KeyError | IndexError | ZeroDivisionError | ValidationError

datatype py_exc = Exc exc_class string

text \<open>\<^verbatim>\<open>except RuntimeError\<close> also catches the subclasses of RuntimeError;
  among the classes above that is NotImplementedError.\<close>

fun isinstance_RuntimeError :: "py_exc \<Rightarrow> bool" where
  "isinstance_RuntimeError (Exc c m) = (c = RuntimeError \<or> c = NotImplementedError)"

fun str_exc :: "py_exc \<Rightarrow> string" where
  "str_exc (Exc c m) = m"

type_synonym bytes = "char list"

datatype py_obj = PyNone | PyText string | PyBytes bytes

text \<open>\<^verbatim>\<open>str(n)\<close> for an integer: its decimal digits, with a minus sign below zero.\<close>

fun str_nat :: "nat \<Rightarrow> string" where
  "str_nat n = (if n < 10 then [''0123456789'' ! n]
                else str_nat (n div 10) @ [''0123456789'' ! (n mod 10)])"

declare str_nat.simps [simp del]

definition str_int :: "int \<Rightarrow> string" where
  "str_int i = (if i < 0 then CHR ''-'' # str_nat (nat (- i)) else str_nat (nat i))"

text \<open>
  \<^verbatim>\<open>template.format(**kw)\<close> with keyword arguments only, every value already a
  string. The scanner is in literal text (\<open>None\<close>) or inside a replacement field
  whose name read so far is \<open>Some name\<close>. Doubled braces are literal braces, a lone
  closing brace, an unclosed field and an opening brace inside a field name are a
  ValueError, an empty or numeric field name asks for a positional argument
  (IndexError, there is none) and an unknown name is a KeyError. The templates of this
  module use plain names only; conversions
  (\<^verbatim>\<open>!r\<close>) and format specifications (\<^verbatim>\<open>:>3\<close>) are not interpreted.
\<close>

fun format_scan :: "(string \<times> string) list \<Rightarrow> string option \<Rightarrow> string \<Rightarrow> py_exc + string" where
  "format_scan kw None [] = Inr []"
| "format_scan kw (Some name) [] = Inl (Exc ValueError ''expected '}' before end of string'')"
| "format_scan kw (Some name) (c # cs) =
     (if c = CHR ''}'' then
        (if list_all (\<lambda>d. d \<in> set ''0123456789'') name
         then Inl (Exc IndexError ''Replacement index out of range for positional args tuple'')
         else (case map_of kw name of
                 None \<Rightarrow> Inl (Exc KeyError name)
               | Some v \<Rightarrow> (case format_scan kw None cs of
                             Inl e \<Rightarrow> Inl e
                           | Inr rest \<Rightarrow> Inr (v @ rest))))
      else if c = CHR ''{'' then Inl (Exc ValueError ''unexpected '{' in field name'')
      else format_scan kw (Some (name @ [c])) cs)"
| "format_scan kw None [c] =
     (if c = CHR ''{'' then Inl (Exc ValueError ''Single '{' encountered in format string'')
      else if c = CHR ''}'' then Inl (Exc ValueError ''Single '}' encountered in format string'')
      else Inr [c])"
| "format_scan kw None (c # d # cs) =
     (if (c = CHR ''{'' \<and> d = CHR ''{'') \<or> (c = CHR ''}'' \<and> d = CHR ''}'') then
        (case format_scan kw None cs of Inl e \<Rightarrow> Inl e | Inr rest \<Rightarrow> Inr (c # rest))
      else if c = CHR ''{'' then format_scan kw (Some []) (d # cs)
      else if c = CHR ''}'' then Inl (Exc ValueError ''Single '}' encountered in format string'')
      else (case format_scan kw None (d # cs) of Inl e \<Rightarrow> Inl e | Inr rest \<Rightarrow> Inr (c # rest)))"

definition py_format :: "string \<Rightarrow> (string \<times> string) list \<Rightarrow> py_exc + string" where
  "py_format template kw = format_scan kw None template"

text \<open>\<^verbatim>\<open>raise ValidationError(msg.format(...))\<close>: the argument is evaluated first, so
  a failure of \<^verbatim>\<open>format\<close> is what is raised.\<close>

definition raise_ValidationError_format :: "string \<Rightarrow> (string \<times> string) list \<Rightarrow> py_exc + 'a" where
  "raise_ValidationError_format msg kw =
     (case py_format msg kw of
        Inl e \<Rightarrow> Inl e
      | Inr text \<Rightarrow> Inl (Exc ValidationError text))"

section \<open>Forms, fields and the world outside the validator\<close>

text \<open>
  A form may have a \<^verbatim>\<open>user\<close> attribute, and the user an \<^verbatim>\<open>oath_secret\<close>
  attribute; \<open>None\<close> is a missing attribute (reading it raises AttributeError). A
  field has the submitted \<^verbatim>\<open>data\<close> (text, or \<open>None\<close> when nothing was submitted)
  and the translation function \<^verbatim>\<open>gettext\<close> of the form framework.
\<close>

record User =
  oath_secret :: "py_obj option"

record Form =
  user :: "User option"

record Field =
  data :: "string option"
  gettext :: "string \<Rightarrow> string"

text \<open>
  What a call can read or change outside its arguments: the caller-owned state \<open>env\<close>
  that a secret-resolution callable may read and update, the clock (\<open>time_source w n\<close>
  is what the \<open>n\<close>-th call of \<^verbatim>\<open>time.time()\<close> returns), and three counters that
  record how often the clock was read, \<^verbatim>\<open>get_oath_secret\<close> was entered and a
  matcher of the OATH library was called.
\<close>

record 'e world =
  env :: 'e
  time_source :: "nat \<Rightarrow> real"
  time_reads :: nat
  secret_calls :: nat
  matcher_calls :: nat

type_synonym 'e callable = "Form \<Rightarrow> Field \<Rightarrow> 'e \<Rightarrow> (py_exc + py_obj) \<times> 'e"

definition time_time :: "'e world \<Rightarrow> real \<times> 'e world" where
  "time_time w = (time_source w (time_reads w), w\<lparr>time_reads := Suc (time_reads w)\<rparr>)"

text \<open>
  The class \<^verbatim>\<open>OATH\<close> and the helper \<^verbatim>\<open>to_bytes\<close> are imported from modules that
  are not part of this file. An \<open>OATH\<close> object is the pair of its two methods used
  here, each a function of its arguments that returns or raises; \<^verbatim>\<open>to_bytes\<close> is a
  parameter of every function that calls it.
\<close>

record OATH =
  hotp_validate :: "bytes \<Rightarrow> int \<Rightarrow> int \<Rightarrow> bytes \<Rightarrow> py_exc + int"
  totp_validate :: "bytes \<Rightarrow> real \<Rightarrow> int option \<Rightarrow> int \<Rightarrow> int \<Rightarrow> bytes \<Rightarrow> py_exc + int"

section \<open>The validators\<close>

record 'e OTPValidator =
  digits :: int
  window :: int
  verbose :: bool
  oath :: OATH
  get_secret :: "'e callable option"

record 'e HOTPValidator = "'e OTPValidator" +
  start_moving_factor :: int

record 'e TOTPValidator = "'e OTPValidator" +
  start_time :: int
  time_step_size :: "int option"

text \<open>\<^verbatim>\<open>OTPValidator.__init__(digits, window, verbose_errors=False, get_secret=None)\<close>;
  \<open>lib\<close> is the object \<^verbatim>\<open>OATH()\<close> returns. The constructors of the subclasses call
  it and add their own fields; \<^verbatim>\<open>int(start_time)\<close> is the identity on an integer.
  No method assigns to a field after construction, so a validator is a value that the
  methods read.\<close>

definition OTPValidator_init ::
  "OATH \<Rightarrow> int \<Rightarrow> int \<Rightarrow> bool \<Rightarrow> 'e callable option \<Rightarrow> 'e OTPValidator" where
  "OTPValidator_init lib digits_arg window_arg verbose_errors get_secret_arg =
     \<lparr>digits = digits_arg, window = window_arg, verbose = verbose_errors,
      oath = lib, get_secret = get_secret_arg\<rparr>"

definition HOTPValidator_init ::
  "OATH \<Rightarrow> int \<Rightarrow> int \<Rightarrow> int \<Rightarrow> bool \<Rightarrow> 'e callable option \<Rightarrow> 'e HOTPValidator" where
  "HOTPValidator_init lib digits_arg window_arg smf verbose_errors get_secret_arg =
     OTPValidator.extend (OTPValidator_init lib digits_arg window_arg verbose_errors get_secret_arg)
       (HOTPValidator.fields smf)"

definition TOTPValidator_init ::
  "OATH \<Rightarrow> int \<Rightarrow> int \<Rightarrow> bool \<Rightarrow> 'e callable option \<Rightarrow> int \<Rightarrow> int option \<Rightarrow> 'e TOTPValidator" where
  "TOTPValidator_init lib digits_arg window_arg verbose_errors get_secret_arg st tss =
     OTPValidator.extend (OTPValidator_init lib digits_arg window_arg verbose_errors get_secret_arg)
       (TOTPValidator.fields st tss)"

text \<open>\<^verbatim>\<open>get_oath_secret\<close>: the callback when one is bound (a bound callable is
  true in \<^verbatim>\<open>if self.get_secret\<close>, \<^verbatim>\<open>None\<close> is not), else
  \<^verbatim>\<open>form.user.oath_secret\<close>; the result goes through \<^verbatim>\<open>to_bytes\<close>. The text of an
  AttributeError is cut down to the name of the missing attribute.\<close>

definition get_oath_secret ::
  "(py_obj \<Rightarrow> py_exc + bytes) \<Rightarrow> ('e, 'm) OTPValidator_scheme \<Rightarrow> Form \<Rightarrow> Field \<Rightarrow> 'e world
     \<Rightarrow> (py_exc + bytes) \<times> 'e world" where
  "get_oath_secret to_bytes self form field w =
     (let w1 = w\<lparr>secret_calls := Suc (secret_calls w)\<rparr> in
      case get_secret self of
        Some callback \<Rightarrow>
          (case callback form field (env w1) of
             (Inl e, env') \<Rightarrow> (Inl e, w1\<lparr>env := env'\<rparr>)
           | (Inr secret, env') \<Rightarrow> (to_bytes secret, w1\<lparr>env := env'\<rparr>))
      | None \<Rightarrow>
          (case user form of
             None \<Rightarrow> (Inl (Exc AttributeError ''user''), w1)
           | Some u \<Rightarrow>
               (case oath_secret u of
                  None \<Rightarrow> (Inl (Exc AttributeError ''oath_secret''), w1)
                | Some secret \<Rightarrow> (to_bytes secret, w1))))"

text \<open>The abstract \<^verbatim>\<open>otp_validate\<close> of the base class.\<close>

definition OTPValidator_otp_validate ::
  "('e, 'm) OTPValidator_scheme \<Rightarrow> Form \<Rightarrow> Field \<Rightarrow> 'e world \<Rightarrow> (py_exc + unit) \<times> 'e world" where
  "OTPValidator_otp_validate self form field w = (Inl (Exc NotImplementedError []), w)"

definition data_obj :: "Field \<Rightarrow> py_obj" where
  "data_obj field = (case data field of None \<Rightarrow> PyNone | Some s \<Rightarrow> PyText s)"

text \<open>
  \<^verbatim>\<open>OTPValidator.__call__\<close>. The method \<^verbatim>\<open>otp_validate\<close> of the subclass is the
  first argument. The call returns nothing on success; every rejection is a raised
  ValidationError, and an exception of \<^verbatim>\<open>otp_validate\<close> that is not a RuntimeError
  leaves the call as it is.
\<close>

definition OTPValidator_call ::
  "(('e, 'm) OTPValidator_scheme \<Rightarrow> Form \<Rightarrow> Field \<Rightarrow> 'e world \<Rightarrow> (py_exc + unit) \<times> 'e world)
     \<Rightarrow> ('e, 'm) OTPValidator_scheme \<Rightarrow> Form \<Rightarrow> Field \<Rightarrow> 'e world
     \<Rightarrow> (py_exc + unit) \<times> 'e world" where
  "OTPValidator_call otp_validate self form field w =
     (let generic_error = gettext field ''OTP is invalid.'' in
      case data field of
        None \<Rightarrow> (Inl (Exc ValidationError (gettext field ''Field is required.'')), w)
      | Some code \<Rightarrow>
          if code = [] then
            (Inl (Exc ValidationError (gettext field ''Field is required.'')), w)
          else if int (length code) \<noteq> digits self then
            (raise_ValidationError_format
               (if verbose self then gettext field ''OTP must be {digits} digits.''
                else generic_error)
               [(''digits'', str_int (digits self))], w)
          else
            (case otp_validate self form field w of
               (Inr u, w') \<Rightarrow> (Inr (), w')
             | (Inl e, w') \<Rightarrow>
                 if isinstance_RuntimeError e then
                   (raise_ValidationError_format
                      (if verbose self then gettext field ''Error validating OTP: {err}''
                       else generic_error)
                      [(''err'', str_exc e)], w')
                 else (Inl e, w')))"

text \<open>The two checks of \<^verbatim>\<open>__call__\<close> that come before \<^verbatim>\<open>otp_validate\<close>: the
  submitted code is there and not empty, and its length is \<open>digits\<close>.\<close>

definition passes_structural_checks :: "('e, 'm) OTPValidator_scheme \<Rightarrow> Field \<Rightarrow> bool" where
  "passes_structural_checks self field =
     (case data field of
        None \<Rightarrow> False
      | Some code \<Rightarrow> code \<noteq> [] \<and> int (length code) = digits self)"

text \<open>\<^verbatim>\<open>HOTPValidator.otp_validate\<close>. The arguments of \<^verbatim>\<open>hotp_validate\<close> are
  evaluated from left to right; what the matcher returns is dropped.\<close>

definition HOTPValidator_otp_validate ::
  "(py_obj \<Rightarrow> py_exc + bytes) \<Rightarrow> ('e, 'm) HOTPValidator_scheme \<Rightarrow> Form \<Rightarrow> Field \<Rightarrow> 'e world
     \<Rightarrow> (py_exc + unit) \<times> 'e world" where
  "HOTPValidator_otp_validate to_bytes self form field w =
     (case get_oath_secret to_bytes self form field w of
        (Inl e, w1) \<Rightarrow> (Inl e, w1)
      | (Inr secret, w1) \<Rightarrow>
          (case to_bytes (data_obj field) of
             Inl e \<Rightarrow> (Inl e, w1)
           | Inr otp \<Rightarrow>
               (case hotp_validate (oath self) secret (start_moving_factor self) (window self) otp of
                  Inl e \<Rightarrow> Inl e
                | Inr offset \<Rightarrow> Inr (),
                w1\<lparr>matcher_calls := Suc (matcher_calls w1)\<rparr>)))"

text \<open>\<^verbatim>\<open>TOTPValidator.otp_validate\<close>: the secret, then \<^verbatim>\<open>time.time()\<close>, then the
  submitted code as bytes, then the matcher.\<close>

definition TOTPValidator_otp_validate ::
  "(py_obj \<Rightarrow> py_exc + bytes) \<Rightarrow> ('e, 'm) TOTPValidator_scheme \<Rightarrow> Form \<Rightarrow> Field \<Rightarrow> 'e world
     \<Rightarrow> (py_exc + unit) \<times> 'e world" where
  "TOTPValidator_otp_validate to_bytes self form field w =
     (case get_oath_secret to_bytes self form field w of
        (Inl e, w1) \<Rightarrow> (Inl e, w1)
      | (Inr secret, w1) \<Rightarrow>
          (case time_time w1 of
             (now, w2) \<Rightarrow>
               (case to_bytes (data_obj field) of
                  Inl e \<Rightarrow> (Inl e, w2)
                | Inr otp \<Rightarrow>
                    (case totp_validate (oath self) secret now (time_step_size self)
                            (start_time self) (window self) otp of
                       Inl e \<Rightarrow> Inl e
                     | Inr offset \<Rightarrow> Inr (),
                     w2\<lparr>matcher_calls := Suc (matcher_calls w2)\<rparr>))))"

definition HOTPValidator_call ::
  "(py_obj \<Rightarrow> py_exc + bytes) \<Rightarrow> ('e, 'm) HOTPValidator_scheme \<Rightarrow> Form \<Rightarrow> Field \<Rightarrow> 'e world
     \<Rightarrow> (py_exc + unit) \<times> 'e world" where
  "HOTPValidator_call to_bytes = OTPValidator_call (HOTPValidator_otp_validate to_bytes)"

definition TOTPValidator_call ::
  "(py_obj \<Rightarrow> py_exc + bytes) \<Rightarrow> ('e, 'm) TOTPValidator_scheme \<Rightarrow> Form \<Rightarrow> Field \<Rightarrow> 'e world
     \<Rightarrow> (py_exc + unit) \<times> 'e world" where
  "TOTPValidator_call to_bytes = OTPValidator_call (TOTPValidator_otp_validate to_bytes)"

section \<open>The matchers of the OATH library\<close>

text \<open>
  The class \<^verbatim>\<open>OATH\<close> is defined in a module that is not among the sources, so its
  two methods are modelled from the design document. Everything in this section is
  such a model.
\<close>

text \<open>Modelled from the spec: the data model's \<open>RejectionReason\<close> and
  \<open>ValidationOutcome\<close>, the result of a matcher (missing: the value
  \<^verbatim>\<open>OATH.hotp_validate\<close> and \<^verbatim>\<open>OATH.totp_validate\<close> return). A match carries the
  signed offset from the expected counter.\<close>

datatype RejectionReason = MissingInput | WrongLength int | NoMatchInWindow | UnderlyingError string

datatype ValidationOutcome = Matched int | Rejected RejectionReason

text \<open>Modelled from the spec: the order in which \<^verbatim>\<open>OATH.hotp_validate\<close> (missing)
  tries the offsets, \<open>0, 1, -1, 2, -2, \<dots>\<close> up to the window in each direction.\<close>

definition window_offsets :: "int \<Rightarrow> int list" where
  "window_offsets W = 0 # concat (map (\<lambda>n. [int n, - int n]) [1..<Suc (nat W)])"

text \<open>Modelled from the spec: the offsets \<^verbatim>\<open>OATH.hotp_validate\<close> (missing) really
  tries. Counters are unsigned and the lower bound of the scan is clamped to zero, so an
  offset that leads below counter zero is left out.\<close>

definition hotp_attempts :: "int \<Rightarrow> int \<Rightarrow> int list" where
  "hotp_attempts M W = filter (\<lambda>i. 0 \<le> M + i) (window_offsets W)"

text \<open>Modelled from the spec: the HOTP matcher, the body of \<^verbatim>\<open>OATH.hotp_validate\<close>
  (missing). The computation \<open>computeCode secret counter digits\<close> of a one-time
  password is the external primitive and stays a parameter. The first offset whose code
  equals the submitted code wins; no match in the whole window is a failure.\<close>

definition hotp_matcher ::
  "(bytes \<Rightarrow> nat \<Rightarrow> int \<Rightarrow> string) \<Rightarrow> bytes \<Rightarrow> string \<Rightarrow> int \<Rightarrow> int \<Rightarrow> int \<Rightarrow> ValidationOutcome" where
  "hotp_matcher computeCode secret code M W d =
     (case find (\<lambda>i. computeCode secret (nat (M + i)) d = code) (hotp_attempts M W) of
        None \<Rightarrow> Rejected NoMatchInWindow
      | Some i \<Rightarrow> Matched i)"

text \<open>Modelled from the spec: the time step \<^verbatim>\<open>OATH.totp_validate\<close> (missing) counts
  in, 30 seconds when the caller left it unset.\<close>

definition totp_time_step :: "int option \<Rightarrow> int" where
  "totp_time_step tss = (case tss of None \<Rightarrow> 30 | Some s \<Rightarrow> s)"

text \<open>Modelled from the spec: the base counter of \<^verbatim>\<open>OATH.totp_validate\<close> (missing),
  \<open>\<lfloor>(currentTime - startTime) / timeStepSize\<rfloor>\<close>, rounded towards minus infinity.\<close>

definition totp_counter :: "real \<Rightarrow> int \<Rightarrow> int \<Rightarrow> int" where
  "totp_counter now start step = \<lfloor>(now - of_int start) / of_int step\<rfloor>"

text \<open>Modelled from the spec: the TOTP matcher, the body of \<^verbatim>\<open>OATH.totp_validate\<close>
  (missing): the window scan of the HOTP matcher around the base counter.\<close>

definition totp_matcher ::
  "(bytes \<Rightarrow> nat \<Rightarrow> int \<Rightarrow> string) \<Rightarrow> bytes \<Rightarrow> string \<Rightarrow> real \<Rightarrow> int \<Rightarrow> int \<Rightarrow> int \<Rightarrow> int
     \<Rightarrow> ValidationOutcome" where
  "totp_matcher computeCode secret code now start step W d =
     hotp_matcher computeCode secret code (totp_counter now start step) W d"

text \<open>Modelled from the spec: how a matcher of \<^verbatim>\<open>OATH\<close> (missing) hands its outcome
  to the validator, which expects a return on success and a RuntimeError on failure.
  The design gives the error no text; here it is the name of the reason.\<close>

fun reason_name :: "RejectionReason \<Rightarrow> string" where
  "reason_name MissingInput = ''MissingInput''"
| "reason_name (WrongLength n) = ''WrongLength''"
| "reason_name NoMatchInWindow = ''NoMatchInWindow''"
| "reason_name (UnderlyingError detail) = detail"

fun outcome_result :: "ValidationOutcome \<Rightarrow> py_exc + int" where
  "outcome_result (Matched offset) = Inr offset"
| "outcome_result (Rejected reason) = Inl (Exc RuntimeError (reason_name reason))"

text \<open>Modelled from the spec: \<^verbatim>\<open>OATH.hotp_validate(secret, start_moving_factor,
  window, otp)\<close> (missing). The call passes no number of digits; the code is computed
  with as many digits as the submitted code has.\<close>

definition spec_hotp_validate ::
  "(bytes \<Rightarrow> nat \<Rightarrow> int \<Rightarrow> string) \<Rightarrow> bytes \<Rightarrow> int \<Rightarrow> int \<Rightarrow> bytes \<Rightarrow> py_exc + int" where
  "spec_hotp_validate computeCode secret M W otp =
     outcome_result (hotp_matcher computeCode secret otp M W (int (length otp)))"

text \<open>Modelled from the spec: \<^verbatim>\<open>OATH.totp_validate(secret, now, time_step_size,
  start_time, window, otp)\<close> (missing). The design gives the quotient no value for a
  time step of 0; that case is an error here, as a division by zero is in Python.\<close>

definition spec_totp_validate ::
  "(bytes \<Rightarrow> nat \<Rightarrow> int \<Rightarrow> string) \<Rightarrow> bytes \<Rightarrow> real \<Rightarrow> int option \<Rightarrow> int \<Rightarrow> int \<Rightarrow> bytes
     \<Rightarrow> py_exc + int" where
  "spec_totp_validate computeCode secret now tss start W otp =
     (if totp_time_step tss = 0 then Inl (Exc ZeroDivisionError ''time step size is zero'')
      else outcome_result
             (totp_matcher computeCode secret otp now start (totp_time_step tss) W (int (length otp))))"

text \<open>Modelled from the spec: the object \<^verbatim>\<open>OATH()\<close> (missing) with these two
  methods.\<close>

definition spec_OATH :: "(bytes \<Rightarrow> nat \<Rightarrow> int \<Rightarrow> string) \<Rightarrow> OATH" where
  "spec_OATH computeCode =
     \<lparr>hotp_validate = spec_hotp_validate computeCode,
      totp_validate = spec_totp_validate computeCode\<rparr>"

section \<open>Sample inputs\<close>

text \<open>A form framework without translations returns each message unchanged.\<close>

definition untranslated :: "Field \<Rightarrow> bool" where
  "untranslated field \<longleftrightarrow>
     gettext field ''OTP is invalid.'' = ''OTP is invalid.'' \<and>
     gettext field ''OTP must be {digits} digits.'' = ''OTP must be {digits} digits.'' \<and>
     gettext field ''Error validating OTP: {err}'' = ''Error validating OTP: {err}''"

text \<open>Inputs for the worked instances below: a conversion that keeps text and bytes
  as they are and rejects \<^verbatim>\<open>None\<close>, a code generator that shows the last digit of
  the counter, clocks, a fresh world, a field, an OATH object whose matchers always
  answer the same, a callback that always raises, and a callback that hands out the
  secrets of a list one after the other.\<close>

definition sample_to_bytes :: "py_obj \<Rightarrow> py_exc + bytes" where
  "sample_to_bytes x =
     (case x of PyNone \<Rightarrow> Inl (Exc TypeError ''NoneType'') | PyText s \<Rightarrow> Inr s | PyBytes b \<Rightarrow> Inr b)"

definition last_digit_code :: "bytes \<Rightarrow> nat \<Rightarrow> int \<Rightarrow> string" where
  "last_digit_code secret counter d = [''0123456789'' ! (counter mod 10)]"

definition steady_clock :: "real \<Rightarrow> nat \<Rightarrow> real" where
  "steady_clock t n = t"

definition ticking_clock :: "real \<Rightarrow> nat \<Rightarrow> real" where
  "ticking_clock t n = t + 30 * real n"

definition fresh_world :: "'e \<Rightarrow> (nat \<Rightarrow> real) \<Rightarrow> 'e world" where
  "fresh_world e clock =
     \<lparr>env = e, time_source = clock, time_reads = 0, secret_calls = 0, matcher_calls = 0\<rparr>"

definition sample_world :: "unit world" where
  "sample_world = fresh_world () (steady_clock 59)"

definition sample_field :: "string option \<Rightarrow> Field" where
  "sample_field submitted = \<lparr>data = submitted, gettext = (\<lambda>s. s)\<rparr>"

definition sample_form :: "py_obj \<Rightarrow> Form" where
  "sample_form secret = \<lparr>user = Some \<lparr>oath_secret = Some secret\<rparr>\<rparr>"

definition constant_OATH :: "py_exc + int \<Rightarrow> OATH" where
  "constant_OATH answer =
     \<lparr>hotp_validate = (\<lambda>secret M W otp. answer),
      totp_validate = (\<lambda>secret now tss start W otp. answer)\<rparr>"

definition raising_callback :: "py_exc \<Rightarrow> 'e callable" where
  "raising_callback x form field e = (Inl x, e)"

definition next_secret :: "(py_obj list) callable" where
  "next_secret form field e =
     (case e of
        [] \<Rightarrow> (Inl (Exc KeyError ''no secret''), [])
      | secret # rest \<Rightarrow> (Inr secret, rest))"

section \<open>Basic facts\<close>

subsection \<open>The three message templates\<close>

lemma py_format_generic: "py_format ''OTP is invalid.'' kw = Inr ''OTP is invalid.''"
  by (simp add: py_format_def)

lemma py_format_digits:
  "py_format ''OTP must be {digits} digits.'' [(''digits'', x)] = Inr (''OTP must be '' @ x @ '' digits.'')"
  by (simp add: py_format_def)

lemma py_format_err:
  "py_format ''Error validating OTP: {err}'' [(''err'', x)] = Inr (''Error validating OTP: '' @ x)"
  by (simp add: py_format_def)

lemma raise_generic:
  "raise_ValidationError_format ''OTP is invalid.'' kw = Inl (Exc ValidationError ''OTP is invalid.'')"
  by (simp add: raise_ValidationError_format_def py_format_generic)

lemma raise_digits:
  "raise_ValidationError_format ''OTP must be {digits} digits.'' [(''digits'', x)] =
     Inl (Exc ValidationError (''OTP must be '' @ x @ '' digits.''))"
  by (simp add: raise_ValidationError_format_def py_format_digits)

lemma raise_err:
  "raise_ValidationError_format ''Error validating OTP: {err}'' [(''err'', x)] =
     Inl (Exc ValidationError (''Error validating OTP: '' @ x))"
  by (simp add: raise_ValidationError_format_def py_format_err)

lemma call_missing:
  "data field = None \<or> data field = Some [] \<Longrightarrow>
   OTPValidator_call ov self form field w =
     (Inl (Exc ValidationError (gettext field ''Field is required.'')), w)"
  by (auto simp: OTPValidator_call_def)

lemma call_wrong_length:
  "data field = Some code \<Longrightarrow> code \<noteq> [] \<Longrightarrow> int (length code) \<noteq> digits self \<Longrightarrow>
   OTPValidator_call ov self form field w =
     (raise_ValidationError_format
        (if verbose self then gettext field ''OTP must be {digits} digits.''
         else gettext field ''OTP is invalid.'')
        [(''digits'', str_int (digits self))], w)"
  by (simp add: OTPValidator_call_def)

lemma call_delegates:
  "data field = Some code \<Longrightarrow> code \<noteq> [] \<Longrightarrow> int (length code) = digits self \<Longrightarrow>
   OTPValidator_call ov self form field w =
     (case ov self form field w of
        (Inr u, w') \<Rightarrow> (Inr (), w')
      | (Inl e, w') \<Rightarrow>
          if isinstance_RuntimeError e then
            (raise_ValidationError_format
               (if verbose self then gettext field ''Error validating OTP: {err}''
                else gettext field ''OTP is invalid.'')
               [(''err'', str_exc e)], w')
          else (Inl e, w'))"
  by (simp add: OTPValidator_call_def)

subsection \<open>Secret resolution and the subclass methods\<close>

lemma get_oath_secret_world:
  "secret_calls (snd (get_oath_secret tb self form field w)) = Suc (secret_calls w)"
  "time_reads (snd (get_oath_secret tb self form field w)) = time_reads w"
  "matcher_calls (snd (get_oath_secret tb self form field w)) = matcher_calls w"
  "time_source (snd (get_oath_secret tb self form field w)) = time_source w"
  by (simp_all add: get_oath_secret_def Let_def split: option.splits prod.splits sum.splits)

lemma get_oath_secret_env:
  "env (snd (get_oath_secret tb self form field w)) =
     (case get_secret self of None \<Rightarrow> env w | Some g \<Rightarrow> snd (g form field (env w)))"
  by (simp add: get_oath_secret_def Let_def split: option.splits prod.splits sum.splits)

lemma get_oath_secret_attribute:
  "get_secret self = None \<Longrightarrow>
   fst (get_oath_secret tb self form field w) =
     (case user form of
        None \<Rightarrow> Inl (Exc AttributeError ''user'')
      | Some u \<Rightarrow> (case oath_secret u of
                     None \<Rightarrow> Inl (Exc AttributeError ''oath_secret'')
                   | Some secret \<Rightarrow> tb secret))"
  by (simp add: get_oath_secret_def Let_def split: option.splits)

lemma get_oath_secret_callback:
  "get_secret self = Some g \<Longrightarrow>
   fst (get_oath_secret tb self form field w) =
     (case fst (g form field (env w)) of Inl e \<Rightarrow> Inl e | Inr secret \<Rightarrow> tb secret)"
  by (simp add: get_oath_secret_def Let_def split: option.splits prod.splits sum.splits)

lemma hotp_otp_validate_unresolved:
  "fst (get_oath_secret tb self form field w) = Inl e \<Longrightarrow>
   HOTPValidator_otp_validate tb self form field w =
     (Inl e, snd (get_oath_secret tb self form field w))"
  by (cases "get_oath_secret tb self form field w") (simp add: HOTPValidator_otp_validate_def)

lemma totp_otp_validate_unresolved:
  "fst (get_oath_secret tb self form field w) = Inl e \<Longrightarrow>
   TOTPValidator_otp_validate tb self form field w =
     (Inl e, snd (get_oath_secret tb self form field w))"
  by (cases "get_oath_secret tb self form field w") (simp add: TOTPValidator_otp_validate_def)

lemma hotp_otp_validate_resolved:
  "fst (get_oath_secret tb self form field w) = Inr key \<Longrightarrow>
   HOTPValidator_otp_validate tb self form field w =
     (let w1 = snd (get_oath_secret tb self form field w) in
      case tb (data_obj field) of
        Inl e \<Rightarrow> (Inl e, w1)
      | Inr otp \<Rightarrow>
          (case hotp_validate (oath self) key (start_moving_factor self) (window self) otp of
             Inl e \<Rightarrow> Inl e
           | Inr offset \<Rightarrow> Inr (),
           w1\<lparr>matcher_calls := Suc (matcher_calls w1)\<rparr>))"
  by (cases "get_oath_secret tb self form field w")
     (simp add: HOTPValidator_otp_validate_def Let_def split: sum.splits)

lemma totp_otp_validate_resolved:
  "fst (get_oath_secret tb self form field w) = Inr key \<Longrightarrow>
   TOTPValidator_otp_validate tb self form field w =
     (let w1 = snd (get_oath_secret tb self form field w);
          now = time_source w (time_reads w);
          w2 = w1\<lparr>time_reads := Suc (time_reads w)\<rparr> in
      case tb (data_obj field) of
        Inl e \<Rightarrow> (Inl e, w2)
      | Inr otp \<Rightarrow>
          (case totp_validate (oath self) key now (time_step_size self) (start_time self)
                  (window self) otp of
             Inl e \<Rightarrow> Inl e
           | Inr offset \<Rightarrow> Inr (),
           w2\<lparr>matcher_calls := Suc (matcher_calls w2)\<rparr>))"
  using get_oath_secret_world(2,4) [of tb self form field w]
  by (cases "get_oath_secret tb self form field w")
     (simp add: TOTPValidator_otp_validate_def time_time_def Let_def split: sum.splits)

subsection \<open>What a call accepts and what it does to the world\<close>

lemma raise_never_returns: "raise_ValidationError_format msg kw \<noteq> Inr x"
  by (simp add: raise_ValidationError_format_def split: sum.splits)

lemma call_accepts_iff:
  "fst (OTPValidator_call ov self form field w) = Inr () \<longleftrightarrow>
     (\<exists>code. data field = Some code \<and> code \<noteq> [] \<and> int (length code) = digits self
        \<and> fst (ov self form field w) = Inr ())"
  by (cases "ov self form field w")
     (auto simp: OTPValidator_call_def Let_def raise_never_returns
        split: option.splits sum.splits)

lemma hotp_otp_validate_verbose:
  "HOTPValidator_otp_validate tb (self\<lparr>verbose := b\<rparr>) = HOTPValidator_otp_validate tb self"
  by (rule ext)+
     (simp add: HOTPValidator_otp_validate_def get_oath_secret_def
        cong: prod.case_cong sum.case_cong)

lemma totp_otp_validate_verbose:
  "TOTPValidator_otp_validate tb (self\<lparr>verbose := b\<rparr>) = TOTPValidator_otp_validate tb self"
  by (rule ext)+
     (simp add: TOTPValidator_otp_validate_def get_oath_secret_def
        cong: prod.case_cong sum.case_cong)

lemma call_world_cases:
  "snd (OTPValidator_call ov self form field w) =
     (if passes_structural_checks self field then snd (ov self form field w) else w)"
  by (cases "ov self form field w")
     (simp add: OTPValidator_call_def passes_structural_checks_def Let_def
        split: option.splits sum.splits)

lemma hotp_otp_validate_world:
  "secret_calls (snd (HOTPValidator_otp_validate tb self form field w)) = Suc (secret_calls w)"
  "time_reads (snd (HOTPValidator_otp_validate tb self form field w)) = time_reads w"
  "env (snd (HOTPValidator_otp_validate tb self form field w)) =
     (case get_secret self of None \<Rightarrow> env w | Some g \<Rightarrow> snd (g form field (env w)))"
  using get_oath_secret_world(1,2) [of tb self form field w]
    get_oath_secret_env [of tb self form field w]
  by (cases "get_oath_secret tb self form field w";
      simp add: HOTPValidator_otp_validate_def split: sum.splits)+

lemma totp_otp_validate_world:
  "secret_calls (snd (TOTPValidator_otp_validate tb self form field w)) = Suc (secret_calls w)"
  "env (snd (TOTPValidator_otp_validate tb self form field w)) =
     (case get_secret self of None \<Rightarrow> env w | Some g \<Rightarrow> snd (g form field (env w)))"
  "time_reads (snd (TOTPValidator_otp_validate tb self form field w)) =
     (case fst (get_oath_secret tb self form field w) of
        Inl e \<Rightarrow> time_reads w | Inr key \<Rightarrow> Suc (time_reads w))"
  using get_oath_secret_world(1,2) [of tb self form field w]
    get_oath_secret_env [of tb self form field w]
  by (cases "get_oath_secret tb self form field w";
      simp add: TOTPValidator_otp_validate_def time_time_def split: sum.splits)+

lemmas sample_defs =
  sample_field_def sample_form_def sample_to_bytes_def sample_world_def fresh_world_def
  untranslated_def passes_structural_checks_def constant_OATH_def raising_callback_def next_secret_def
  HOTPValidator_init_def TOTPValidator_init_def OTPValidator_init_def
  OTPValidator.defs HOTPValidator.defs TOTPValidator.defs
  raise_generic raise_digits raise_err

section \<open>Structural checks\<close>

text \<open>
  Claim C3. A submitted code that is absent or empty is rejected with the message for a
  required field, whatever the validator's digits, window and verbose flag are and
  whichever subclass it is; nothing else happens in the world.
\<close>

theorem missing_input_rejected:
  assumes "data field = None \<or> data field = Some []"
  shows "OTPValidator_call ov self form field w =
           (Inl (Exc ValidationError (gettext field ''Field is required.'')), w)
       \<and> HOTPValidator_call to_bytes hv form field w =
           (Inl (Exc ValidationError (gettext field ''Field is required.'')), w)
       \<and> TOTPValidator_call to_bytes tv form field w =
           (Inl (Exc ValidationError (gettext field ''Field is required.'')), w)"
  using assms by (simp add: HOTPValidator_call_def TOTPValidator_call_def call_missing)

theorem missing_input_rejected_witness:
  "(data (sample_field (Some [])) = None \<or> data (sample_field (Some [])) = Some [])
   \<and> HOTPValidator_call sample_to_bytes
       (HOTPValidator_init (spec_OATH last_digit_code) 6 1 0 True None)
       \<lparr>user = None\<rparr> (sample_field (Some [])) sample_world =
       (Inl (Exc ValidationError ''Field is required.''), sample_world)
   \<and> TOTPValidator_call sample_to_bytes
       (TOTPValidator_init (spec_OATH last_digit_code) 8 0 False None 0 None)
       \<lparr>user = None\<rparr> (sample_field (Some [])) sample_world =
       (Inl (Exc ValidationError ''Field is required.''), sample_world)"
  using missing_input_rejected [of "sample_field (Some [])" OTPValidator_otp_validate
      "OTPValidator_init (spec_OATH last_digit_code) 6 1 True None" "\<lparr>user = None\<rparr>" sample_world
      sample_to_bytes "HOTPValidator_init (spec_OATH last_digit_code) 6 1 0 True None"
      "TOTPValidator_init (spec_OATH last_digit_code) 8 0 False None 0 None"]
  by (simp add: sample_field_def)

text \<open>
  Claim C4. A non-empty submitted code whose length is not the configured number of
  digits is rejected at the length check, whatever its characters are. The message is
  formatted with the configured \<open>digits\<close>, never with the submitted length: without
  translations it reads \<open>OTP must be <digits> digits.\<close> for a verbose validator and is
  the generic message otherwise. This holds for every value of \<open>digits\<close>, so for the
  positive ones.
\<close>

theorem wrong_length_rejected:
  assumes "data field = Some code" and "code \<noteq> []" and "int (length code) \<noteq> digits self"
  shows "OTPValidator_call ov self form field w =
           (raise_ValidationError_format
              (if verbose self then gettext field ''OTP must be {digits} digits.''
               else gettext field ''OTP is invalid.'')
              [(''digits'', str_int (digits self))], w)
       \<and> (untranslated field \<longrightarrow>
            OTPValidator_call ov self form field w =
              (Inl (Exc ValidationError
                 (if verbose self then ''OTP must be '' @ str_int (digits self) @ '' digits.''
                  else ''OTP is invalid.'')), w))"
  using assms by (simp add: call_wrong_length untranslated_def raise_generic raise_digits)

theorem wrong_length_rejected_witness:
  "data (sample_field (Some ''1234567'')) = Some ''1234567'' \<and> ''1234567'' \<noteq> []
   \<and> int (length ''1234567'') \<noteq> digits (HOTPValidator_init (spec_OATH last_digit_code) 6 1 0 True None)
   \<and> untranslated (sample_field (Some ''1234567''))
   \<and> OTPValidator_call (HOTPValidator_otp_validate sample_to_bytes)
       (HOTPValidator_init (spec_OATH last_digit_code) 6 1 0 True None)
       \<lparr>user = None\<rparr> (sample_field (Some ''1234567'')) sample_world =
       (Inl (Exc ValidationError ''OTP must be 6 digits.''), sample_world)"
proof -
  have s: "str_int 6 = ''6''" by code_simp
  show ?thesis
    using wrong_length_rejected [of "sample_field (Some ''1234567'')" "''1234567''"
      "HOTPValidator_init (spec_OATH last_digit_code) 6 1 0 True None"
      "HOTPValidator_otp_validate sample_to_bytes" "\<lparr>user = None\<rparr>" sample_world] s
    by (simp add: sample_defs)
qed

section \<open>Classification of failures\<close>

text \<open>
  Claim C1, as amended. For a submitted code that passes both structural checks, a
  failure of \<^verbatim>\<open>otp_validate\<close> (of secret resolution or of the matcher) that is a
  RuntimeError or one of its subclasses is turned into a ValidationError: without
  translations its message is \<open>Error validating OTP: <detail>\<close> for a verbose validator
  and the generic \<open>OTP is invalid.\<close> otherwise. A failure of any other class is not
  caught and leaves the call as it is. A failed secret resolution makes
  \<^verbatim>\<open>otp_validate\<close> of both subclasses fail with the same exception.
\<close>

theorem runtime_error_classified:
  assumes "data field = Some code" and "code \<noteq> []" and "untranslated field"
  shows "(int (length code) = digits self \<and> fst (ov self form field w) = Inl e \<longrightarrow>
            fst (OTPValidator_call ov self form field w) =
              (if isinstance_RuntimeError e then
                 Inl (Exc ValidationError
                   (if verbose self then ''Error validating OTP: '' @ str_exc e
                    else ''OTP is invalid.''))
               else Inl e))
       \<and> (int (length code) = digits hv \<and> fst (get_oath_secret tb hv form field w) = Inl e \<longrightarrow>
            fst (HOTPValidator_call tb hv form field w) =
              (if isinstance_RuntimeError e then
                 Inl (Exc ValidationError
                   (if verbose hv then ''Error validating OTP: '' @ str_exc e
                    else ''OTP is invalid.''))
               else Inl e))
       \<and> (int (length code) = digits tv \<and> fst (get_oath_secret tb tv form field w) = Inl e \<longrightarrow>
            fst (TOTPValidator_call tb tv form field w) =
              (if isinstance_RuntimeError e then
                 Inl (Exc ValidationError
                   (if verbose tv then ''Error validating OTP: '' @ str_exc e
                    else ''OTP is invalid.''))
               else Inl e))"
proof -
  have generic: "fst (OTPValidator_call f v form field w) =
      (if isinstance_RuntimeError e then
         Inl (Exc ValidationError
           (if verbose v then ''Error validating OTP: '' @ str_exc e else ''OTP is invalid.''))
       else Inl e)"
    if "int (length code) = digits v" and "fst (f v form field w) = Inl e"
    for f and v :: "('a, 'z) OTPValidator_scheme"
    using that assms
    by (cases "f v form field w")
       (simp add: call_delegates untranslated_def raise_generic raise_err)
  show ?thesis
    by (simp add: generic HOTPValidator_call_def TOTPValidator_call_def
        hotp_otp_validate_unresolved totp_otp_validate_unresolved)
qed

theorem runtime_error_classified_witness:
  "data (sample_field (Some ''123456'')) = Some ''123456'' \<and> ''123456'' \<noteq> []
   \<and> untranslated (sample_field (Some ''123456''))
   \<and> int (length ''123456'') =
       digits (HOTPValidator_init (constant_OATH (Inr 0)) 6 1 0 True
                 (Some (raising_callback (Exc RuntimeError ''lookup failed''))))
   \<and> fst (get_oath_secret sample_to_bytes
            (HOTPValidator_init (constant_OATH (Inr 0)) 6 1 0 True
               (Some (raising_callback (Exc RuntimeError ''lookup failed''))))
            \<lparr>user = None\<rparr> (sample_field (Some ''123456'')) sample_world) =
       Inl (Exc RuntimeError ''lookup failed'')
   \<and> fst (HOTPValidator_call sample_to_bytes
            (HOTPValidator_init (constant_OATH (Inr 0)) 6 1 0 True
               (Some (raising_callback (Exc RuntimeError ''lookup failed''))))
            \<lparr>user = None\<rparr> (sample_field (Some ''123456'')) sample_world) =
       Inl (Exc ValidationError ''Error validating OTP: lookup failed'')"
  using runtime_error_classified [where field = "sample_field (Some ''123456'')"
      and code = "''123456''" and e = "Exc RuntimeError ''lookup failed''"
      and form = "\<lparr>user = None\<rparr>" and w = sample_world and tb = sample_to_bytes
      and hv = "HOTPValidator_init (constant_OATH (Inr 0)) 6 1 0 True
         (Some (raising_callback (Exc RuntimeError ''lookup failed'')))"
      and tv = "TOTPValidator_init (constant_OATH (Inr 0)) 6 1 True None 0 None"
      and self = "OTPValidator_init (constant_OATH (Inr 0)) 6 1 True None"
      and ov = OTPValidator_otp_validate]
  by (simp add: sample_defs get_oath_secret_def)

text \<open>The claim as stated fails: a callback that raises a KeyError for an unknown
  user makes the whole call raise that KeyError, not a ValidationError.\<close>

theorem lookup_failure_propagates:
  "fst (HOTPValidator_call sample_to_bytes
          (HOTPValidator_init (constant_OATH (Inr 0)) 6 1 0 True
             (Some (raising_callback (Exc KeyError ''alice''))))
          \<lparr>user = None\<rparr> (sample_field (Some ''123456'')) sample_world) =
     Inl (Exc KeyError ''alice'')"
  by (simp add: sample_defs get_oath_secret_def HOTPValidator_call_def OTPValidator_call_def
      HOTPValidator_otp_validate_def)

text \<open>
  Claim C2, as amended. When the structural checks pass, the secret resolves and the
  submitted code converts to bytes, the matcher is called. If it returns, the call
  returns nothing, whatever offset the matcher reported. If it raises a RuntimeError,
  the call raises the ValidationError that any other RuntimeError of
  \<^verbatim>\<open>otp_validate\<close> gets: \<open>Error validating OTP: <detail>\<close> for a verbose validator,
  the generic message otherwise.
\<close>

theorem matcher_outcome_signalled:
  assumes "data field = Some code" and "code \<noteq> []" and "tb (PyText code) = Inr otp"
  shows "(int (length code) = digits hv \<and> fst (get_oath_secret tb hv form field w) = Inr key
            \<and> hotp_validate (oath hv) key (start_moving_factor hv) (window hv) otp = Inr offset
          \<longrightarrow> fst (HOTPValidator_call tb hv form field w) = Inr ())
       \<and> (int (length code) = digits hv \<and> fst (get_oath_secret tb hv form field w) = Inr key
            \<and> hotp_validate (oath hv) key (start_moving_factor hv) (window hv) otp = Inl e
            \<and> isinstance_RuntimeError e \<and> untranslated field
          \<longrightarrow> fst (HOTPValidator_call tb hv form field w) =
                Inl (Exc ValidationError
                  (if verbose hv then ''Error validating OTP: '' @ str_exc e
                   else ''OTP is invalid.'')))
       \<and> (int (length code) = digits tv \<and> fst (get_oath_secret tb tv form field w) = Inr key
            \<and> totp_validate (oath tv) key (time_source w (time_reads w)) (time_step_size tv)
                 (start_time tv) (window tv) otp = Inr offset
          \<longrightarrow> fst (TOTPValidator_call tb tv form field w) = Inr ())
       \<and> (int (length code) = digits tv \<and> fst (get_oath_secret tb tv form field w) = Inr key
            \<and> totp_validate (oath tv) key (time_source w (time_reads w)) (time_step_size tv)
                 (start_time tv) (window tv) otp = Inl e
            \<and> isinstance_RuntimeError e \<and> untranslated field
          \<longrightarrow> fst (TOTPValidator_call tb tv form field w) =
                Inl (Exc ValidationError
                  (if verbose tv then ''Error validating OTP: '' @ str_exc e
                   else ''OTP is invalid.'')))"
  using assms
  by (simp add: HOTPValidator_call_def TOTPValidator_call_def call_delegates
      hotp_otp_validate_resolved totp_otp_validate_resolved data_obj_def Let_def
      untranslated_def raise_generic raise_err)

theorem matcher_outcome_signalled_witness:
  "data (sample_field (Some ''123456'')) = Some ''123456'' \<and> ''123456'' \<noteq> []
   \<and> sample_to_bytes (PyText ''123456'') = Inr ''123456''
   \<and> int (length ''123456'') = digits (HOTPValidator_init (constant_OATH (Inr 3)) 6 5 0 True None)
   \<and> fst (get_oath_secret sample_to_bytes
            (HOTPValidator_init (constant_OATH (Inr 3)) 6 5 0 True None)
            (sample_form (PyText ''key'')) (sample_field (Some ''123456'')) sample_world) = Inr ''key''
   \<and> hotp_validate (oath (HOTPValidator_init (constant_OATH (Inr 3)) 6 5 0 True None)) ''key''
        (start_moving_factor (HOTPValidator_init (constant_OATH (Inr 3)) 6 5 0 True None))
        (window (HOTPValidator_init (constant_OATH (Inr 3)) 6 5 0 True None)) ''123456'' = Inr 3
   \<and> fst (HOTPValidator_call sample_to_bytes
            (HOTPValidator_init (constant_OATH (Inr 3)) 6 5 0 True None)
            (sample_form (PyText ''key'')) (sample_field (Some ''123456'')) sample_world) = Inr ()"
  using matcher_outcome_signalled [where field = "sample_field (Some ''123456'')"
      and code = "''123456''" and tb = sample_to_bytes and otp = "''123456''"
      and hv = "HOTPValidator_init (constant_OATH (Inr 3)) 6 5 0 True None"
      and tv = "TOTPValidator_init (constant_OATH (Inr 3)) 6 5 True None 0 None"
      and form = "sample_form (PyText ''key'')" and w = sample_world and key = "''key''"
      and offset = 3 and e = "Exc RuntimeError ''no match''"]
  by (simp add: sample_defs get_oath_secret_def)

text \<open>The claim as stated fails: a matcher that reports offset 3 and one that reports
  offset 0 give the caller the same result, which holds no offset; and a matcher that
  finds no match gives the same rejection as a secret resolution that fails with the
  same text.\<close>

theorem matched_offset_not_delivered:
  "HOTPValidator_call sample_to_bytes
     (HOTPValidator_init (constant_OATH (Inr 3)) 6 5 0 True None)
     (sample_form (PyText ''key'')) (sample_field (Some ''123456'')) sample_world =
   HOTPValidator_call sample_to_bytes
     (HOTPValidator_init (constant_OATH (Inr 0)) 6 5 0 True None)
     (sample_form (PyText ''key'')) (sample_field (Some ''123456'')) sample_world
   \<and> fst (HOTPValidator_call sample_to_bytes
            (HOTPValidator_init (constant_OATH (Inr 3)) 6 5 0 True None)
            (sample_form (PyText ''key'')) (sample_field (Some ''123456'')) sample_world) = Inr ()
   \<and> fst (HOTPValidator_call sample_to_bytes
            (HOTPValidator_init (constant_OATH (Inl (Exc RuntimeError ''no match''))) 6 5 0 True None)
            (sample_form (PyText ''key'')) (sample_field (Some ''123456'')) sample_world) =
       Inl (Exc ValidationError ''Error validating OTP: no match'')
   \<and> fst (HOTPValidator_call sample_to_bytes
            (HOTPValidator_init (constant_OATH (Inr 0)) 6 5 0 True
               (Some (raising_callback (Exc RuntimeError ''no match''))))
            (sample_form (PyText ''key'')) (sample_field (Some ''123456'')) sample_world) =
       Inl (Exc ValidationError ''Error validating OTP: no match'')"
  by (simp add: sample_defs get_oath_secret_def HOTPValidator_call_def OTPValidator_call_def
      HOTPValidator_otp_validate_def data_obj_def)

text \<open>
  Claim C5. Whether a call accepts does not depend on the verbose flag, and neither
  does what the call does to the world. For a validator that is not verbose and a code
  that is not missing, the call accepts, or rejects with the one generic message, or
  lets an exception through that is not a RuntimeError. For a verbose validator a code
  of the wrong length is rejected with the message that shows \<open>digits\<close>, and a
  RuntimeError of \<^verbatim>\<open>otp_validate\<close> with the message that shows its detail. The
  messages are those of a form framework without translations.
\<close>

theorem message_mapping:
  "((fst (HOTPValidator_call tb (hv\<lparr>verbose := b\<rparr>) form field w) = Inr ()) =
      (fst (HOTPValidator_call tb hv form field w) = Inr ()))
   \<and> ((fst (TOTPValidator_call tb (tv\<lparr>verbose := b\<rparr>) form field w) = Inr ()) =
      (fst (TOTPValidator_call tb tv form field w) = Inr ()))
   \<and> snd (HOTPValidator_call tb (hv\<lparr>verbose := b\<rparr>) form field w) =
       snd (HOTPValidator_call tb hv form field w)
   \<and> snd (TOTPValidator_call tb (tv\<lparr>verbose := b\<rparr>) form field w) =
       snd (TOTPValidator_call tb tv form field w)
   \<and> (data field = Some code \<and> code \<noteq> [] \<and> untranslated field \<and> \<not> verbose self \<longrightarrow>
        fst (OTPValidator_call ov self form field w) = Inr ()
        \<or> fst (OTPValidator_call ov self form field w) = Inl (Exc ValidationError ''OTP is invalid.'')
        \<or> (\<exists>x. \<not> isinstance_RuntimeError x \<and> fst (ov self form field w) = Inl x
              \<and> fst (OTPValidator_call ov self form field w) = Inl x))
   \<and> (data field = Some code \<and> code \<noteq> [] \<and> untranslated field \<and> verbose self
        \<and> int (length code) \<noteq> digits self \<longrightarrow>
        fst (OTPValidator_call ov self form field w) =
          Inl (Exc ValidationError (''OTP must be '' @ str_int (digits self) @ '' digits.'')))
   \<and> (data field = Some code \<and> code \<noteq> [] \<and> untranslated field \<and> verbose self
        \<and> int (length code) = digits self \<and> fst (ov self form field w) = Inl e
        \<and> isinstance_RuntimeError e \<longrightarrow>
        fst (OTPValidator_call ov self form field w) =
          Inl (Exc ValidationError (''Error validating OTP: '' @ str_exc e)))"
proof -
  have a: "(fst (HOTPValidator_call tb (hv\<lparr>verbose := b\<rparr>) form field w) = Inr ()) =
      (fst (HOTPValidator_call tb hv form field w) = Inr ())"
    by (simp add: HOTPValidator_call_def call_accepts_iff hotp_otp_validate_verbose)
  have a': "(fst (TOTPValidator_call tb (tv\<lparr>verbose := b\<rparr>) form field w) = Inr ()) =
      (fst (TOTPValidator_call tb tv form field w) = Inr ())"
    by (simp add: TOTPValidator_call_def call_accepts_iff totp_otp_validate_verbose)
  have s: "snd (HOTPValidator_call tb (hv\<lparr>verbose := b\<rparr>) form field w) =
       snd (HOTPValidator_call tb hv form field w)"
    by (simp add: HOTPValidator_call_def call_world_cases hotp_otp_validate_verbose
        passes_structural_checks_def split: option.splits)
  have s': "snd (TOTPValidator_call tb (tv\<lparr>verbose := b\<rparr>) form field w) =
       snd (TOTPValidator_call tb tv form field w)"
    by (simp add: TOTPValidator_call_def call_world_cases totp_otp_validate_verbose
        passes_structural_checks_def split: option.splits)
  have q: "fst (OTPValidator_call ov self form field w) = Inr ()
        \<or> fst (OTPValidator_call ov self form field w) = Inl (Exc ValidationError ''OTP is invalid.'')
        \<or> (\<exists>x. \<not> isinstance_RuntimeError x \<and> fst (ov self form field w) = Inl x
              \<and> fst (OTPValidator_call ov self form field w) = Inl x)"
    if "data field = Some code" "code \<noteq> []" "untranslated field" "\<not> verbose self"
    using that
    by (cases "ov self form field w")
       (auto simp: OTPValidator_call_def Let_def untranslated_def raise_generic split: sum.splits)
  have l: "fst (OTPValidator_call ov self form field w) =
          Inl (Exc ValidationError (''OTP must be '' @ str_int (digits self) @ '' digits.''))"
    if "data field = Some code" "code \<noteq> []" "untranslated field" "verbose self"
       "int (length code) \<noteq> digits self"
    using that by (simp add: call_wrong_length untranslated_def raise_digits)
  have r: "fst (OTPValidator_call ov self form field w) =
          Inl (Exc ValidationError (''Error validating OTP: '' @ str_exc e))"
    if "data field = Some code" "code \<noteq> []" "untranslated field" "verbose self"
       "int (length code) = digits self" "fst (ov self form field w) = Inl e"
       "isinstance_RuntimeError e"
    using that
    by (cases "ov self form field w") (simp add: call_delegates untranslated_def raise_err)
  from a a' s s' q l r show ?thesis by blast
qed

theorem message_mapping_witness:
  "data (sample_field (Some ''123456'')) = Some ''123456'' \<and> ''123456'' \<noteq> []
   \<and> untranslated (sample_field (Some ''123456''))
   \<and> verbose (HOTPValidator_init (constant_OATH (Inl (Exc RuntimeError ''no match''))) 6 1 0 True None)
   \<and> int (length ''123456'') =
       digits (HOTPValidator_init (constant_OATH (Inl (Exc RuntimeError ''no match''))) 6 1 0 True None)
   \<and> fst (HOTPValidator_otp_validate sample_to_bytes
            (HOTPValidator_init (constant_OATH (Inl (Exc RuntimeError ''no match''))) 6 1 0 True None)
            (sample_form (PyText ''key'')) (sample_field (Some ''123456'')) sample_world) =
       Inl (Exc RuntimeError ''no match'')
   \<and> isinstance_RuntimeError (Exc RuntimeError ''no match'')
   \<and> fst (OTPValidator_call (HOTPValidator_otp_validate sample_to_bytes)
            (HOTPValidator_init (constant_OATH (Inl (Exc RuntimeError ''no match''))) 6 1 0 True None)
            (sample_form (PyText ''key'')) (sample_field (Some ''123456'')) sample_world) =
       Inl (Exc ValidationError ''Error validating OTP: no match'')"
  using message_mapping [where field = "sample_field (Some ''123456'')" and code = "''123456''"
      and self = "HOTPValidator_init (constant_OATH (Inl (Exc RuntimeError ''no match''))) 6 1 0 True None"
      and ov = "HOTPValidator_otp_validate sample_to_bytes"
      and hv = "HOTPValidator_init (constant_OATH (Inl (Exc RuntimeError ''no match''))) 6 1 0 True None"
      and tv = "TOTPValidator_init (constant_OATH (Inl (Exc RuntimeError ''no match''))) 6 1 True None 0 None"
      and tb = sample_to_bytes and form = "sample_form (PyText ''key'')" and w = sample_world
      and e = "Exc RuntimeError ''no match''" and b = False]
  by (simp add: sample_defs get_oath_secret_def HOTPValidator_otp_validate_def data_obj_def)

section \<open>Secret resolution\<close>

text \<open>
  Claim C9. In a call of either subclass that passes the structural checks,
  \<^verbatim>\<open>get_oath_secret\<close> is entered exactly once and a bound callback transforms the
  caller's state exactly once; a second call resolves the secret again, so nothing is
  kept from the first. In a call that fails a structural check the world is unchanged:
  no secret resolution, no reading of the clock, no call of a matcher.
\<close>

theorem secret_resolved_once:
  "(passes_structural_checks hv field \<longrightarrow>
      secret_calls (snd (HOTPValidator_call tb hv form field w)) = Suc (secret_calls w)
      \<and> env (snd (HOTPValidator_call tb hv form field w)) =
          (case get_secret hv of None \<Rightarrow> env w | Some g \<Rightarrow> snd (g form field (env w)))
      \<and> secret_calls (snd (HOTPValidator_call tb hv form field
                              (snd (HOTPValidator_call tb hv form field w)))) =
          Suc (Suc (secret_calls w)))
   \<and> (passes_structural_checks tv field \<longrightarrow>
      secret_calls (snd (TOTPValidator_call tb tv form field w)) = Suc (secret_calls w)
      \<and> env (snd (TOTPValidator_call tb tv form field w)) =
          (case get_secret tv of None \<Rightarrow> env w | Some g \<Rightarrow> snd (g form field (env w)))
      \<and> secret_calls (snd (TOTPValidator_call tb tv form field
                              (snd (TOTPValidator_call tb tv form field w)))) =
          Suc (Suc (secret_calls w)))
   \<and> (\<not> passes_structural_checks hv field \<longrightarrow>
        snd (HOTPValidator_call tb hv form field w) = w)
   \<and> (\<not> passes_structural_checks tv field \<longrightarrow>
        snd (TOTPValidator_call tb tv form field w) = w)"
  by (simp add: HOTPValidator_call_def TOTPValidator_call_def call_world_cases
      hotp_otp_validate_world totp_otp_validate_world)

theorem secret_resolved_once_witness:
  "passes_structural_checks
     (HOTPValidator_init (spec_OATH last_digit_code) 1 1 0 True (Some next_secret))
     (sample_field (Some ''1''))
   \<and> secret_calls (snd (HOTPValidator_call sample_to_bytes
        (HOTPValidator_init (spec_OATH last_digit_code) 1 1 0 True (Some next_secret))
        \<lparr>user = None\<rparr> (sample_field (Some ''1''))
        (fresh_world [PyText ''a'', PyText ''b''] (steady_clock 59)))) = 1
   \<and> env (snd (HOTPValidator_call sample_to_bytes
        (HOTPValidator_init (spec_OATH last_digit_code) 1 1 0 True (Some next_secret))
        \<lparr>user = None\<rparr> (sample_field (Some ''1''))
        (fresh_world [PyText ''a'', PyText ''b''] (steady_clock 59)))) = [PyText ''b'']
   \<and> \<not> passes_structural_checks
        (TOTPValidator_init (spec_OATH last_digit_code) 6 1 True (Some next_secret) 0 None)
        (sample_field (Some ''1''))
   \<and> snd (TOTPValidator_call sample_to_bytes
        (TOTPValidator_init (spec_OATH last_digit_code) 6 1 True (Some next_secret) 0 None)
        \<lparr>user = None\<rparr> (sample_field (Some ''1''))
        (fresh_world [PyText ''a'', PyText ''b''] (steady_clock 59))) =
       fresh_world [PyText ''a'', PyText ''b''] (steady_clock 59)"
  using secret_resolved_once [where field = "sample_field (Some ''1'')"
      and hv = "HOTPValidator_init (spec_OATH last_digit_code) 1 1 0 True (Some next_secret)"
      and tv = "TOTPValidator_init (spec_OATH last_digit_code) 6 1 True (Some next_secret) 0 None"
      and tb = sample_to_bytes and form = "\<lparr>user = None\<rparr>"
      and w = "fresh_world [PyText ''a'', PyText ''b''] (steady_clock 59)"]
  by (simp add: sample_defs)

text \<open>
  Claim C10. Without a bound callback \<^verbatim>\<open>get_oath_secret\<close> reads
  \<^verbatim>\<open>form.user.oath_secret\<close> (a missing attribute is an AttributeError); with one it
  takes what the callback returns. On both paths the secret goes through
  \<^verbatim>\<open>to_bytes\<close>, and what \<^verbatim>\<open>to_bytes\<close> returns is the key the matcher of either
  subclass is called with; when resolution or conversion fails no matcher is called.
\<close>

theorem secret_source_and_conversion:
  "(get_secret self = None \<longrightarrow>
      fst (get_oath_secret tb self form field w) =
        (case user form of
           None \<Rightarrow> Inl (Exc AttributeError ''user'')
         | Some u \<Rightarrow> (case oath_secret u of
                        None \<Rightarrow> Inl (Exc AttributeError ''oath_secret'')
                      | Some secret \<Rightarrow> tb secret)))
   \<and> (get_secret self = Some g \<longrightarrow>
      fst (get_oath_secret tb self form field w) =
        (case fst (g form field (env w)) of Inl e \<Rightarrow> Inl e | Inr secret \<Rightarrow> tb secret))
   \<and> (fst (get_oath_secret tb hv form field w) = Inr key \<and> tb (data_obj field) = Inr otp \<longrightarrow>
      fst (HOTPValidator_otp_validate tb hv form field w) =
        (case hotp_validate (oath hv) key (start_moving_factor hv) (window hv) otp of
           Inl e \<Rightarrow> Inl e | Inr offset \<Rightarrow> Inr ()))
   \<and> (fst (get_oath_secret tb tv form field w) = Inr key \<and> tb (data_obj field) = Inr otp \<longrightarrow>
      fst (TOTPValidator_otp_validate tb tv form field w) =
        (case totp_validate (oath tv) key (time_source w (time_reads w)) (time_step_size tv)
                (start_time tv) (window tv) otp of
           Inl e \<Rightarrow> Inl e | Inr offset \<Rightarrow> Inr ()))
   \<and> (fst (get_oath_secret tb hv form field w) = Inl x \<longrightarrow>
      fst (HOTPValidator_otp_validate tb hv form field w) = Inl x
      \<and> matcher_calls (snd (HOTPValidator_otp_validate tb hv form field w)) = matcher_calls w)
   \<and> (fst (get_oath_secret tb tv form field w) = Inl x \<longrightarrow>
      fst (TOTPValidator_otp_validate tb tv form field w) = Inl x
      \<and> matcher_calls (snd (TOTPValidator_otp_validate tb tv form field w)) = matcher_calls w)"
  by (simp add: get_oath_secret_attribute get_oath_secret_callback
      hotp_otp_validate_resolved totp_otp_validate_resolved
      hotp_otp_validate_unresolved totp_otp_validate_unresolved
      get_oath_secret_world Let_def)

theorem secret_source_and_conversion_witness:
  "get_secret (HOTPValidator_init (constant_OATH (Inr 0)) 6 1 0 False None) = None
   \<and> fst (get_oath_secret sample_to_bytes
            (HOTPValidator_init (constant_OATH (Inr 0)) 6 1 0 False None)
            (sample_form (PyText ''key'')) (sample_field (Some ''123456'')) sample_world) =
       Inr ''key''
   \<and> sample_to_bytes (data_obj (sample_field (Some ''123456''))) = Inr ''123456''
   \<and> fst (HOTPValidator_otp_validate sample_to_bytes
            (HOTPValidator_init (constant_OATH (Inr 0)) 6 1 0 False None)
            (sample_form (PyText ''key'')) (sample_field (Some ''123456'')) sample_world) =
       Inr ()"
  using secret_source_and_conversion [where self = "HOTPValidator_init (constant_OATH (Inr 0)) 6 1 0 False None"
      and hv = "HOTPValidator_init (constant_OATH (Inr 0)) 6 1 0 False None"
      and tv = "TOTPValidator_init (constant_OATH (Inr 0)) 6 1 False None 0 None"
      and tb = sample_to_bytes and form = "sample_form (PyText ''key'')"
      and field = "sample_field (Some ''123456'')" and w = sample_world
      and key = "''key''" and otp = "''123456''" and g = "raising_callback (Exc KeyError ''k'')"
      and x = "Exc KeyError ''k''"]
  by (simp add: sample_defs data_obj_def)

section \<open>The window scan\<close>

subsection \<open>The offsets tried and the first match\<close>

lemma find_append_cases:
  "find P (xs @ ys) = (case find P xs of None \<Rightarrow> find P ys | Some x \<Rightarrow> Some x)"
  by (induction xs) simp_all

lemma find_Some_holds: "find P xs = Some x \<Longrightarrow> P x \<and> x \<in> set xs"
  by (induction xs) (auto split: if_splits)

lemma window_offsets_Suc:
  "window_offsets (int (Suc n)) = window_offsets (int n) @ [int (Suc n), - int (Suc n)]"
proof -
  have "[1..<Suc (Suc n)] = [1..<Suc n] @ [Suc n]" by simp
  then show ?thesis
    by (simp add: window_offsets_def del: of_nat_Suc upt_Suc)
qed

lemma window_offsets_0: "window_offsets 0 = [0]"
  by (simp add: window_offsets_def)

lemma set_window_offsets_nat: "set (window_offsets (int n)) = {i. \<bar>i\<bar> \<le> int n}"
proof (induction n)
  case 0
  show ?case by (auto simp: window_offsets_0)
next
  case (Suc n)
  have "{i. \<bar>i\<bar> \<le> int (Suc n)} = {i. \<bar>i\<bar> \<le> int n} \<union> {int (Suc n), - int (Suc n)}"
    by auto
  with Suc show ?case by (simp add: window_offsets_Suc del: of_nat_Suc)
qed

lemma set_window_offsets: "0 \<le> W \<Longrightarrow> set (window_offsets W) = {i. \<bar>i\<bar> \<le> W}"
  using set_window_offsets_nat [of "nat W"] by simp

lemma set_hotp_attempts:
  "0 \<le> W \<Longrightarrow> set (hotp_attempts M W) = {i. \<bar>i\<bar> \<le> W \<and> 0 \<le> M + i}"
  by (auto simp: hotp_attempts_def set_window_offsets)

lemma first_match_closest_nat:
  "\<bar>k\<bar> \<le> int n \<Longrightarrow> Q k \<Longrightarrow> P k \<Longrightarrow>
   \<exists>j. find P (filter Q (window_offsets (int n))) = Some j \<and> \<bar>j\<bar> \<le> \<bar>k\<bar>"
proof (induction n)
  case 0
  then have "k = 0" by simp
  with 0 show ?case by (simp add: window_offsets_0)
next
  case (Suc n)
  let ?prefix = "filter Q (window_offsets (int n))"
  let ?ring = "filter Q [int (Suc n), - int (Suc n)]"
  have split: "find P (filter Q (window_offsets (int (Suc n)))) =
      (case find P ?prefix of None \<Rightarrow> find P ?ring | Some x \<Rightarrow> Some x)"
    by (simp only: window_offsets_Suc filter_append find_append_cases)
  show ?case
  proof (cases "\<bar>k\<bar> \<le> int n")
    case True
    from Suc.IH [OF True Suc.prems(2,3)] obtain j
      where "find P ?prefix = Some j" and "\<bar>j\<bar> \<le> \<bar>k\<bar>" by blast
    with split show ?thesis by simp
  next
    case False
    with Suc.prems(1) have k: "k = int (Suc n) \<or> k = - int (Suc n)" by auto
    show ?thesis
    proof (cases "find P ?prefix")
      case None
      let ?j = "if Q (int (Suc n)) \<and> P (int (Suc n)) then int (Suc n) else - int (Suc n)"
      from k Suc.prems(2,3) have "find P ?ring = Some ?j" by auto
      moreover from k have "\<bar>?j\<bar> = \<bar>k\<bar>" by auto
      ultimately show ?thesis using split None by simp
    next
      case (Some j)
      then have "j \<in> set (window_offsets (int n))"
        using find_Some_holds [of P ?prefix j] by simp
      then have "\<bar>j\<bar> \<le> int n" by (simp add: set_window_offsets_nat)
      with False split Some show ?thesis by simp
    qed
  qed
qed

lemma first_match_closest:
  assumes "0 \<le> W" and "\<bar>k\<bar> \<le> W" and "0 \<le> M + k" and "P k"
  shows "\<exists>j. find P (hotp_attempts M W) = Some j \<and> \<bar>j\<bar> \<le> \<bar>k\<bar>"
  using first_match_closest_nat [of k "nat W" "\<lambda>i. 0 \<le> M + i" P] assms
  by (simp add: hotp_attempts_def)

text \<open>
  Claim C6, as amended, for a window \<open>W\<close> that is not negative. The code computed for
  a counter \<open>M + k\<close> inside the window validates: the matcher answers \<open>Matched j\<close> for
  an offset \<open>j\<close> it tried, no farther from the expected counter than \<open>k\<close>, whose
  counter has the same code; \<open>j\<close> is \<open>k\<close> itself when no other counter tried has that
  code. The code computed for the counter \<open>M + W + 1\<close> is rejected with
  \<open>NoMatchInWindow\<close> when no counter tried has that code. No offset tried leads below
  counter zero or outside the window, and with moving factor 0 and window 5 the counters
  tried are 0 to 5.
\<close>

theorem hotp_window_matching:
  assumes "0 \<le> W"
  shows "(\<bar>k\<bar> \<le> W \<and> 0 \<le> M + k \<longrightarrow>
            (\<exists>j \<in> set (hotp_attempts M W).
               hotp_matcher cc S (cc S (nat (M + k)) d) M W d = Matched j \<and> \<bar>j\<bar> \<le> \<bar>k\<bar>
               \<and> cc S (nat (M + j)) d = cc S (nat (M + k)) d))
       \<and> (\<bar>k\<bar> \<le> W \<and> 0 \<le> M + k
            \<and> (\<forall>j \<in> set (hotp_attempts M W). j \<noteq> k \<longrightarrow>
                  cc S (nat (M + j)) d \<noteq> cc S (nat (M + k)) d)
          \<longrightarrow> hotp_matcher cc S (cc S (nat (M + k)) d) M W d = Matched k)
       \<and> ((\<forall>j \<in> set (hotp_attempts M W). cc S (nat (M + j)) d \<noteq> cc S (nat (M + W + 1)) d)
          \<longrightarrow> hotp_matcher cc S (cc S (nat (M + W + 1)) d) M W d = Rejected NoMatchInWindow)
       \<and> (\<forall>i \<in> set (hotp_attempts M W). 0 \<le> M + i \<and> \<bar>i\<bar> \<le> W)
       \<and> map (\<lambda>i. 0 + i) (hotp_attempts 0 5) = [0, 1, 2, 3, 4, 5]"
proof -
  let ?P = "\<lambda>code i. cc S (nat (M + i)) d = code"
  have first: "\<exists>j \<in> set (hotp_attempts M W).
      hotp_matcher cc S (cc S (nat (M + k)) d) M W d = Matched j \<and> \<bar>j\<bar> \<le> \<bar>k\<bar>
      \<and> cc S (nat (M + j)) d = cc S (nat (M + k)) d"
    if k: "\<bar>k\<bar> \<le> W" "0 \<le> M + k" for k
  proof -
    from first_match_closest [OF assms k, of "?P (cc S (nat (M + k)) d)"] obtain j
      where j: "find (?P (cc S (nat (M + k)) d)) (hotp_attempts M W) = Some j" "\<bar>j\<bar> \<le> \<bar>k\<bar>"
      by auto
    from find_Some_holds [OF j(1)] j show ?thesis
      by (auto simp: hotp_matcher_def)
  qed
  have unique: "hotp_matcher cc S (cc S (nat (M + k)) d) M W d = Matched k"
    if "\<bar>k\<bar> \<le> W" "0 \<le> M + k"
       "\<forall>j \<in> set (hotp_attempts M W). j \<noteq> k \<longrightarrow> cc S (nat (M + j)) d \<noteq> cc S (nat (M + k)) d"
    using first [OF that(1,2)] that(3) by auto
  have none: "hotp_matcher cc S (cc S (nat (M + W + 1)) d) M W d = Rejected NoMatchInWindow"
    if "\<forall>j \<in> set (hotp_attempts M W). cc S (nat (M + j)) d \<noteq> cc S (nat (M + W + 1)) d"
  proof -
    from that have "find (?P (cc S (nat (M + W + 1)) d)) (hotp_attempts M W) = None"
      by (simp add: find_None_iff)
    then show ?thesis by (simp add: hotp_matcher_def)
  qed
  have bounds: "\<forall>i \<in> set (hotp_attempts M W). 0 \<le> M + i \<and> \<bar>i\<bar> \<le> W"
    using assms by (simp add: set_hotp_attempts)
  have clamp: "map (\<lambda>i. 0 + i) (hotp_attempts 0 5) = [0, 1, 2, 3, 4, 5]"
    by code_simp
  from first unique none bounds clamp show ?thesis by blast
qed

theorem hotp_window_matching_witness:
  "(0::int) \<le> 2 \<and> \<bar>- 1\<bar> \<le> (2::int) \<and> (0::int) \<le> 3 + (- 1)
   \<and> map (\<lambda>j. last_digit_code ''key'' (nat (3 + j)) 1) (hotp_attempts 3 2) =
       [''3'', ''4'', ''2'', ''5'', ''1'']
   \<and> last_digit_code ''key'' (nat (3 + (- 1))) 1 = ''2''
   \<and> hotp_matcher last_digit_code ''key'' (last_digit_code ''key'' (nat (3 + (- 1))) 1) 3 2 1 =
       Matched (- 1)
   \<and> last_digit_code ''key'' (nat (3 + 2 + 1)) 1 = ''6''
   \<and> hotp_matcher last_digit_code ''key'' (last_digit_code ''key'' (nat (3 + 2 + 1)) 1) 3 2 1 =
       Rejected NoMatchInWindow"
proof -
  have a: "hotp_attempts 3 2 = [0, 1, - 1, 2, - 2]" by code_simp
  show ?thesis
    using hotp_window_matching [where W = 2 and k = "- 1" and M = 3 and cc = last_digit_code
        and S = "''key''" and d = 1]
    by (simp add: a last_digit_code_def)
qed

text \<open>The claim as stated fails where two counters have the same code: with a code
  generator that shows the last digit of the counter, the code of counter 10 is matched
  at offset 0 in the window 10 around counter 0, not at offset 10, and the code of
  counter 10 is accepted in the window 9 around counter 0, one step outside it.\<close>

theorem hotp_code_collision:
  "hotp_matcher last_digit_code ''key'' (last_digit_code ''key'' (nat (0 + 10)) 1) 0 10 1 = Matched 0
   \<and> hotp_matcher last_digit_code ''key'' (last_digit_code ''key'' (nat (0 + 9 + 1)) 1) 0 9 1 = Matched 0"
  by code_simp

text \<open>Ties are not special to that generator. Codes are decimal strings of a fixed
  length, so among the counters \<open>0, \<dots>, 10\<^sup>n\<close> two have the same code, whatever
  the generator is, and in the window around counter 0 that holds both, the code of the
  later one is matched at another offset.\<close>

lemma decimal_codes_collide:
  assumes codes: "\<And>c. length (cc S c d) = n \<and> set (cc S c d) \<subseteq> set ''0123456789''"
  shows "\<exists>a b. a < b \<and> b \<le> (10::nat) ^ n \<and> cc S a d = cc S b d"
proof -
  define A where "A = {0..(10::nat) ^ n}"
  define D where "D = set ''0123456789''"
  define f where "f = (\<lambda>c. cc S c d)"
  have ten: "card D = 10" unfolding D_def by simp
  have finD: "finite D" unfolding D_def by simp
  have fin: "finite {xs. set xs \<subseteq> D \<and> length xs = n}"
    using finD by (rule finite_lists_length_eq)
  have "card {xs. set xs \<subseteq> D \<and> length xs = n} = card D ^ n"
    using finD by (rule card_lists_length_eq)
  then have cardcodes: "card {xs. set xs \<subseteq> D \<and> length xs = n} = 10 ^ n"
    by (simp only: ten)
  have "f c \<in> {xs. set xs \<subseteq> D \<and> length xs = n}" for c
    using codes [of c] unfolding f_def D_def by blast
  then have "f ` A \<subseteq> {xs. set xs \<subseteq> D \<and> length xs = n}" by blast
  then have "card (f ` A) \<le> card {xs. set xs \<subseteq> D \<and> length xs = n}"
    using fin by (simp only: card_mono)
  then have "card (f ` A) \<le> 10 ^ n" by (simp only: cardcodes)
  moreover have "card A = Suc (10 ^ n)" unfolding A_def by (simp only: card_atLeastAtMost minus_nat.diff_0)
  ultimately have "card (f ` A) < card A" by linarith
  then have "\<not> inj_on f A" by (rule pigeonhole)
  then obtain x y where "x \<in> A" "y \<in> A" "x \<noteq> y" "f x = f y"
    unfolding inj_on_def by blast
  then have xy: "x \<le> 10 ^ n" "y \<le> 10 ^ n" "x \<noteq> y" "cc S x d = cc S y d"
    unfolding A_def f_def by simp_all
  show ?thesis
  proof (cases "x < y")
    case True
    with xy show ?thesis by blast
  next
    case False
    with xy have "y < x" by simp
    with xy(1,4) show ?thesis by metis
  qed
qed


lemma decimal_codes_tie:
  assumes codes: "\<And>c. length (cc S c d) = n \<and> set (cc S c d) \<subseteq> set ''0123456789''"
  shows "\<exists>W k. 0 \<le> W \<and> \<bar>k\<bar> \<le> W \<and> 0 \<le> 0 + k
           \<and> hotp_matcher cc S (cc S (nat (0 + k)) d) 0 W d \<noteq> Matched k"
proof -
  from codes decimal_codes_collide [of cc S d n] obtain a b
    where ab: "a < b" "b \<le> 10 ^ n" "cc S a d = cc S b d" by blast
  define W where "W = int (10 ^ n)"
  define P where "P = (\<lambda>i. cc S (nat (0 + i)) d = cc S (nat (0 + int b)) d)"
  have W: "0 \<le> W" "\<bar>int a\<bar> \<le> W" "\<bar>int b\<bar> \<le> W"
    using ab unfolding W_def by simp_all
  have "P (int a)" unfolding P_def using ab(3) by simp
  with W have "\<exists>j. find P (hotp_attempts 0 W) = Some j \<and> \<bar>j\<bar> \<le> \<bar>int a\<bar>"
    by (intro first_match_closest) simp_all
  then obtain j where "find P (hotp_attempts 0 W) = Some j" and "\<bar>j\<bar> \<le> int a" by auto
  with ab(1) have "hotp_matcher cc S (cc S (nat (0 + int b)) d) 0 W d \<noteq> Matched (int b)"
    unfolding hotp_matcher_def P_def by auto
  with W show ?thesis by (intro exI [of _ W] exI [of _ "int b"]) simp
qed

section \<open>The time step and the clock\<close>

lemma spec_totp_validate_default:
  "spec_totp_validate cc secret now None = spec_totp_validate cc secret now (Some 30)"
  by (rule ext)+ (simp add: spec_totp_validate_def totp_time_step_def)

lemma totp_otp_validate_default:
  "TOTPValidator_otp_validate tb (TOTPValidator_init (spec_OATH cc) d W vb gs st None) form field w =
   TOTPValidator_otp_validate tb (TOTPValidator_init (spec_OATH cc) d W vb gs st (Some 30)) form field w"
  by (simp add: TOTPValidator_otp_validate_def TOTPValidator_init_def OTPValidator_init_def
      OTPValidator.defs TOTPValidator.defs get_oath_secret_def spec_OATH_def
      spec_totp_validate_default cong: prod.case_cong sum.case_cong)

lemma call_cong_validator:
  "digits v' = digits v \<Longrightarrow> verbose v' = verbose v \<Longrightarrow>
   ov v' form field w = ov v form field w \<Longrightarrow>
   OTPValidator_call ov v' form field w = OTPValidator_call ov v form field w"
  by (simp add: OTPValidator_call_def Let_def cong: if_cong option.case_cong)

text \<open>
  Claim C7. A TOTP validator built without a time step stores the placeholder and hands
  it to the matcher, and the matcher counts in steps of 30: every call gives what it
  gives with a time step of 30, the base counter being \<open>\<lfloor>(now - start) / 30\<rfloor>\<close>. For a
  time step that is unset or positive the step the matcher divides by is positive.
\<close>

theorem totp_default_time_step:
  "time_step_size (TOTPValidator_init lib d W vb gs st None) = None
   \<and> TOTPValidator_call tb (TOTPValidator_init (spec_OATH cc) d W vb gs st None) form field w =
       TOTPValidator_call tb (TOTPValidator_init (spec_OATH cc) d W vb gs st (Some 30)) form field w
   \<and> spec_totp_validate cc secret now None start W otp =
       outcome_result
         (hotp_matcher cc secret otp \<lfloor>(now - of_int start) / 30\<rfloor> W (int (length otp)))
   \<and> totp_time_step None = 30
   \<and> (tss = None \<or> (\<exists>s. tss = Some s \<and> 0 < s) \<longrightarrow>
        0 < totp_time_step tss
        \<and> spec_totp_validate cc secret now tss start W otp =
            outcome_result
              (hotp_matcher cc secret otp
                 \<lfloor>(now - of_int start) / of_int (totp_time_step tss)\<rfloor> W (int (length otp))))"
proof -
  have stored: "time_step_size (TOTPValidator_init lib d W vb gs st None) = None"
    by (simp add: TOTPValidator_init_def OTPValidator_init_def OTPValidator.defs TOTPValidator.defs)
  have same: "TOTPValidator_call tb (TOTPValidator_init (spec_OATH cc) d W vb gs st None) form field w =
       TOTPValidator_call tb (TOTPValidator_init (spec_OATH cc) d W vb gs st (Some 30)) form field w"
    unfolding TOTPValidator_call_def
    by (rule call_cong_validator)
       (simp_all add: totp_otp_validate_default,
        simp_all add: TOTPValidator_init_def OTPValidator_init_def OTPValidator.defs
          TOTPValidator.defs)
  have unset: "spec_totp_validate cc secret now None start W otp =
       outcome_result
         (hotp_matcher cc secret otp \<lfloor>(now - of_int start) / 30\<rfloor> W (int (length otp)))"
    by (simp add: spec_totp_validate_def totp_time_step_def totp_matcher_def totp_counter_def)
  have thirty: "totp_time_step None = 30" by (simp add: totp_time_step_def)
  have positive: "0 < totp_time_step tss
        \<and> spec_totp_validate cc secret now tss start W otp =
            outcome_result
              (hotp_matcher cc secret otp
                 \<lfloor>(now - of_int start) / of_int (totp_time_step tss)\<rfloor> W (int (length otp)))"
    if "tss = None \<or> (\<exists>s. tss = Some s \<and> 0 < s)"
    using that
    by (auto simp: spec_totp_validate_def totp_time_step_def totp_matcher_def totp_counter_def)
  from stored same unset thirty positive show ?thesis by blast
qed

theorem totp_default_time_step_witness:
  "((None :: int option) = None \<or> (\<exists>s. (None :: int option) = Some s \<and> 0 < s))
   \<and> (0 :: int) < totp_time_step None
   \<and> spec_totp_validate last_digit_code ''key'' 59 None 0 1 ''1'' = Inr 0
   \<and> spec_totp_validate last_digit_code ''key'' 60 None 0 1 ''1'' = Inr (- 1)
   \<and> fst (TOTPValidator_call sample_to_bytes
            (TOTPValidator_init (spec_OATH last_digit_code) 1 1 False None 0 None)
            (sample_form (PyText ''key'')) (sample_field (Some ''1'')) sample_world) = Inr ()"
proof -
  have a: "hotp_attempts 1 1 = [0, 1, - 1]" "hotp_attempts 2 1 = [0, 1, - 1]" by code_simp+
  have m: "hotp_matcher last_digit_code ''key'' ''1'' 1 1 1 = Matched 0"
    "hotp_matcher last_digit_code ''key'' ''1'' 2 1 1 = Matched (- 1)"
    by (simp_all add: hotp_matcher_def a last_digit_code_def)
  have c: "fst (TOTPValidator_call sample_to_bytes
            (TOTPValidator_init (spec_OATH last_digit_code) 1 1 False None 0 (Some 30))
            (sample_form (PyText ''key'')) (sample_field (Some ''1'')) sample_world) = Inr ()"
    by (simp add: sample_defs TOTPValidator_call_def OTPValidator_call_def
        TOTPValidator_otp_validate_def get_oath_secret_def time_time_def data_obj_def
        spec_OATH_def spec_totp_validate_def totp_time_step_def totp_matcher_def
        totp_counter_def steady_clock_def m)
  show ?thesis
    using totp_default_time_step [where tss = None and cc = last_digit_code
        and secret = "''key''" and now = 59 and start = 0 and W = 1 and otp = "''1''"
        and tb = sample_to_bytes and d = 1 and vb = False and gs = None and st = 0
        and form = "sample_form (PyText ''key'')" and field = "sample_field (Some ''1'')"
        and w = sample_world and lib = "spec_OATH last_digit_code"]
      totp_default_time_step [where tss = None and cc = last_digit_code
        and secret = "''key''" and now = 60 and start = 0 and W = 1 and otp = "''1''"
        and tb = sample_to_bytes and d = 1 and vb = False and gs = None and st = 0
        and form = "sample_form (PyText ''key'')" and field = "sample_field (Some ''1'')"
        and w = sample_world and lib = "spec_OATH last_digit_code"]
      c m
    by simp
qed

lemma get_oath_secret_result_env:
  "env w' = env w \<Longrightarrow>
   fst (get_oath_secret tb self form field w') = fst (get_oath_secret tb self form field w)"
  by (simp add: get_oath_secret_def Let_def split: option.splits prod.splits sum.splits)

lemma totp_otp_validate_result:
  "fst (TOTPValidator_otp_validate tb self form field w) =
     (case fst (get_oath_secret tb self form field w) of
        Inl e \<Rightarrow> Inl e
      | Inr key \<Rightarrow>
          (case tb (data_obj field) of
             Inl e \<Rightarrow> Inl e
           | Inr otp \<Rightarrow>
               (case totp_validate (oath self) key (time_source w (time_reads w))
                       (time_step_size self) (start_time self) (window self) otp of
                  Inl e \<Rightarrow> Inl e
                | Inr offset \<Rightarrow> Inr ())))"
  by (cases "fst (get_oath_secret tb self form field w)")
     (simp_all add: totp_otp_validate_unresolved totp_otp_validate_resolved Let_def
        split: sum.splits)

lemma call_result_cases:
  "fst (ov self form field w') = fst (ov self form field w) \<Longrightarrow>
   fst (OTPValidator_call ov self form field w') = fst (OTPValidator_call ov self form field w)"
  by (cases "ov self form field w'"; cases "ov self form field w")
     (simp add: OTPValidator_call_def Let_def split: option.splits sum.splits)

text \<open>
  Claim C8, as amended. A call of the TOTP validator reads the clock exactly once when
  the structural checks pass and the secret resolves, and not at all when the call is
  rejected before that. What the call returns or raises depends on the clock through
  that one reading only: two worlds with the same caller state and the same next
  reading give the same result, whatever the clock would show later.
\<close>

theorem time_sampled_at_most_once:
  "(passes_structural_checks tv field \<and> fst (get_oath_secret tb tv form field w) = Inr key \<longrightarrow>
      time_reads (snd (TOTPValidator_call tb tv form field w)) = Suc (time_reads w))
   \<and> (\<not> passes_structural_checks tv field \<or> fst (get_oath_secret tb tv form field w) = Inl x \<longrightarrow>
      time_reads (snd (TOTPValidator_call tb tv form field w)) = time_reads w)
   \<and> (env w' = env w \<and> time_source w' (time_reads w') = time_source w (time_reads w) \<longrightarrow>
      fst (TOTPValidator_call tb tv form field w') = fst (TOTPValidator_call tb tv form field w))"
proof -
  have once: "time_reads (snd (TOTPValidator_call tb tv form field w)) = Suc (time_reads w)"
    if "passes_structural_checks tv field" "fst (get_oath_secret tb tv form field w) = Inr key"
    using that by (simp add: TOTPValidator_call_def call_world_cases totp_otp_validate_world)
  have never: "time_reads (snd (TOTPValidator_call tb tv form field w)) = time_reads w"
    if "\<not> passes_structural_checks tv field \<or> fst (get_oath_secret tb tv form field w) = Inl x"
    using that by (auto simp: TOTPValidator_call_def call_world_cases totp_otp_validate_world)
  have same: "fst (TOTPValidator_call tb tv form field w') = fst (TOTPValidator_call tb tv form field w)"
    if "env w' = env w" "time_source w' (time_reads w') = time_source w (time_reads w)"
    unfolding TOTPValidator_call_def
    by (rule call_result_cases)
       (simp add: totp_otp_validate_result get_oath_secret_result_env [OF that(1)] that(2)
          cong: sum.case_cong)
  from once never same show ?thesis by blast
qed

theorem time_sampled_at_most_once_witness:
  "passes_structural_checks
     (TOTPValidator_init (spec_OATH last_digit_code) 1 1 False None 0 None)
     (sample_field (Some ''1''))
   \<and> fst (get_oath_secret sample_to_bytes
            (TOTPValidator_init (spec_OATH last_digit_code) 1 1 False None 0 None)
            (sample_form (PyText ''key'')) (sample_field (Some ''1''))
            (fresh_world () (ticking_clock 59))) = Inr ''key''
   \<and> time_reads (snd (TOTPValidator_call sample_to_bytes
        (TOTPValidator_init (spec_OATH last_digit_code) 1 1 False None 0 None)
        (sample_form (PyText ''key'')) (sample_field (Some ''1''))
        (fresh_world () (ticking_clock 59)))) = 1
   \<and> env sample_world = env (fresh_world () (ticking_clock 59))
   \<and> time_source sample_world (time_reads sample_world) =
       time_source (fresh_world () (ticking_clock 59)) (time_reads (fresh_world () (ticking_clock 59)))
   \<and> fst (TOTPValidator_call sample_to_bytes
        (TOTPValidator_init (spec_OATH last_digit_code) 1 1 False None 0 None)
        (sample_form (PyText ''key'')) (sample_field (Some ''1'')) sample_world) =
     fst (TOTPValidator_call sample_to_bytes
        (TOTPValidator_init (spec_OATH last_digit_code) 1 1 False None 0 None)
        (sample_form (PyText ''key'')) (sample_field (Some ''1''))
        (fresh_world () (ticking_clock 59)))"
  using time_sampled_at_most_once [where field = "sample_field (Some ''1'')"
      and tv = "TOTPValidator_init (spec_OATH last_digit_code) 1 1 False None 0 None"
      and tb = sample_to_bytes and form = "sample_form (PyText ''key'')"
      and w = "fresh_world () (ticking_clock 59)" and w' = sample_world
      and key = "''key''" and x = "Exc KeyError ''k''"]
  by (simp add: sample_defs get_oath_secret_def steady_clock_def ticking_clock_def)

text \<open>The claim as stated fails for a call that is rejected early: a code of the
  wrong length is rejected without any reading of the clock.\<close>

theorem rejected_call_reads_no_clock:
  "time_reads (snd (TOTPValidator_call sample_to_bytes
      (TOTPValidator_init (spec_OATH last_digit_code) 6 1 False None 0 None)
      (sample_form (PyText ''key'')) (sample_field (Some ''12345'')) sample_world)) =
     time_reads sample_world
   \<and> time_reads (snd (TOTPValidator_call sample_to_bytes
      (TOTPValidator_init (spec_OATH last_digit_code) 6 1 False None 0 None)
      (sample_form (PyText ''key'')) (sample_field (Some ''12345'')) sample_world)) \<noteq>
     Suc (time_reads sample_world)"
  by (simp add: sample_defs TOTPValidator_call_def OTPValidator_call_def)

end
